theory Spec2Isabelle
  imports Main
begin

section \<open>Values, failures and effects of the page loaders\<close>

text \<open>
  A thrown JavaScript error, by constructor and message. The loaders construct only
  \<open>new Error(...)\<close>; the other two constructors are what the platform throws from a
  dynamic import, a network fetch or a JSON decode.
\<close>

datatype js_error =
    Error (message: string)
  | TypeError (message: string)
  | SyntaxError (message: string)

text \<open>
  The value of a property read: reading a property that an object does not have gives
  \<open>undefined\<close> and does not throw.
\<close>

datatype 'v js = Undefined | Val 'v

text \<open>A module namespace object: the exports of a module, by name.\<close>

type_synonym 'v module_ns = "string \<rightharpoonup> 'v"

definition read_property :: "'v module_ns \<Rightarrow> string \<Rightarrow> 'v js" where
  "read_property ns k = (case ns k of None \<Rightarrow> Undefined | Some v \<Rightarrow> Val v)"

text \<open>An object literal: its own properties, in the order the literal lists them.\<close>

type_synonym 'x obj = "(string \<times> 'x) list"

definition keys :: "'x obj \<Rightarrow> string list" where
  "keys ob = map fst ob"

text \<open>
  The second argument of \<open>fetch\<close>, when one is passed, and what a request is when it is
  left out: a GET with no header and no body of the caller's.
\<close>

record RequestInit =
  http_method :: "string option"
  headers :: "(string \<times> string) list"
  body :: "string option"

definition request_method :: "RequestInit option \<Rightarrow> string" where
  "request_method init =
     (case init of None \<Rightarrow> ''GET''
      | Some i \<Rightarrow> (case http_method i of None \<Rightarrow> ''GET'' | Some m \<Rightarrow> m))"

definition request_headers :: "RequestInit option \<Rightarrow> (string \<times> string) list" where
  "request_headers init = (case init of None \<Rightarrow> [] | Some i \<Rightarrow> headers i)"

definition request_body :: "RequestInit option \<Rightarrow> string option" where
  "request_body init = (case init of None \<Rightarrow> None | Some i \<Rightarrow> body i)"

text \<open>
  A response as the loader sees it: its status line and the outcome of awaiting
  \<open>response.json()\<close>, which is the decoded body or the decoder's failure.
\<close>

record 'j Response =
  status :: nat
  json :: "js_error + 'j"

definition ok :: "('j, 'z) Response_scheme \<Rightarrow> bool" where
  "ok r = (200 \<le> status r \<and> status r \<le> 299)"

text \<open>
  The argument of a \<open>load\<close> function: the route parameters and the framework's
  \<open>fetch\<close>. Further fields of the event live in the record's extension.
\<close>

record ('p, 'j) LoadEvent =
  params :: 'p
  fetch :: "string \<Rightarrow> RequestInit option \<Rightarrow> js_error + 'j Response"

text \<open>The parameters of the route \<open>[lang=lang]/catalog/roadmaps/[name]\<close>.\<close>

record RouteParams =
  lang :: string
  name :: string

text \<open>What an invocation does to the outside, in order.\<close>

datatype effect =
    DynamicImport string
  | Fetch string "RequestInit option"
  | ResponseJson

section \<open>The content resolver: \<open>routes/[lang=lang]/catalog/roadmaps/[name]/+page.ts\<close>\<close>

definition module_path :: "'z RouteParams_scheme \<Rightarrow> string" where
  "module_path ps =
     ''../../../../../lib/content/roadmaps/'' @ name ps @ ''/'' @ lang ps @ ''/overview.ts''"

text \<open>
  \<open>load\<close> of the roadmap page. The first argument is the dynamic \<open>import()\<close>: the module
  namespace for a path, or what it throws. The \<open>try\<close> block covers the import and the
  property read; the handler drops what it caught.
\<close>

definition load_roadmap ::
  "(string \<Rightarrow> js_error + 'v module_ns) \<Rightarrow> ('z RouteParams_scheme, 'j, 'y) LoadEvent_scheme
     \<Rightarrow> effect list \<times> (js_error + 'v js obj)" where
  "load_roadmap import_module ev =
     (let path = module_path (params ev) in
      ([DynamicImport path],
       case import_module path of
         Inl e \<Rightarrow> Inl (Error ''You missed it'')
       | Inr roadmapFile \<Rightarrow> Inr [(''roadmap'', read_property roadmapFile ''overview'')]))"

text \<open>
  A (language, name) pair has a content record when the import of its overview module
  succeeds and the module exports \<open>overview\<close>.
\<close>

definition has_record ::
  "(string \<Rightarrow> js_error + 'v module_ns) \<Rightarrow> 'z RouteParams_scheme \<Rightarrow> bool" where
  "has_record import_module ps =
     (case import_module (module_path ps) of
        Inl e \<Rightarrow> False
      | Inr ns \<Rightarrow> ns ''overview'' \<noteq> None)"

section \<open>The API-backed loader\<close>

definition load_content ::
  "('p, 'j, 'y) LoadEvent_scheme \<Rightarrow> effect list \<times> (js_error + 'j obj)" where
  "load_content ev =
     (case fetch ev ''/api/content/cadenceByExample'' None of
        Inl e \<Rightarrow> ([Fetch ''/api/content/cadenceByExample'' None], Inl e)
      | Inr response \<Rightarrow>
          (case json response of
             Inl e \<Rightarrow> ([Fetch ''/api/content/cadenceByExample'' None, ResponseJson], Inl e)
           | Inr content \<Rightarrow>
               ([Fetch ''/api/content/cadenceByExample'' None, ResponseJson],
                Inr [(''content'', content)])))"

text \<open>The requests an invocation has sent, read off its effects.\<close>

fun requests :: "effect list \<Rightarrow> (string \<times> RequestInit option) list" where
  "requests [] = []"
| "requests (Fetch input init # es) = (input, init) # requests es"
| "requests (e # es) = requests es"

text \<open>
  A request path is on the page's own origin when it is an absolute path and not a
  scheme-relative address.
\<close>

definition same_origin_path :: "string \<Rightarrow> bool" where
  "same_origin_path u = (take 1 u = ''/'' \<and> take 2 u \<noteq> ''//'')"

text \<open>
  A decoded JSON body. The loader never looks inside one; the carrier of numbers is
  left open.
\<close>

datatype 'n json_value =
    JNull
  | JBool bool
  | JNumber 'n
  | JString string
  | JArray "'n json_value list"
  | JObject "(string \<times> 'n json_value) list"

section \<open>The content resolver over the module cache\<close>

text \<open>
  The same \<open>load\<close>, with the state that outlives an invocation made explicit. A module
  is evaluated once: the initialiser of \<open>export const overview = { ... }\<close> builds one
  object, and the module record is kept. The heap holds the objects, an address is an
  index into it, and a namespace gives each export the address of its object. The
  loader returns \<open>roadmapFile.overview\<close> itself, a reference, not a copy.
\<close>

type_synonym addr = nat

record 'v realm =
  heap :: "'v list"
  loaded :: "string \<rightharpoonup> addr module_ns"

text \<open>Evaluating a module body: each export's object is allocated at the next address.\<close>

fun instantiate :: "(string \<times> 'v) list \<Rightarrow> 'v realm \<Rightarrow> addr module_ns \<times> 'v realm" where
  "instantiate [] s = (Map.empty, s)"
| "instantiate ((k, v) # exports) s =
     (case instantiate exports (s\<lparr>heap := heap s @ [v]\<rparr>) of
        (ns, s') \<Rightarrow> (ns(k \<mapsto> length (heap s)), s'))"

text \<open>
  The dynamic import over the module sources: a module already loaded is answered from
  the cache; otherwise its source is evaluated and the module recorded, or the failure
  is thrown and nothing changes.
\<close>

definition import_in ::
  "(string \<Rightarrow> js_error + (string \<times> 'v) list) \<Rightarrow> string \<Rightarrow> 'v realm
     \<Rightarrow> (js_error + addr module_ns) \<times> 'v realm" where
  "import_in sources path s =
     (case loaded s path of
        Some ns \<Rightarrow> (Inr ns, s)
      | None \<Rightarrow>
          (case sources path of
             Inl e \<Rightarrow> (Inl e, s)
           | Inr exports \<Rightarrow>
               (case instantiate exports s of
                  (ns, s') \<Rightarrow> (Inr ns, s'\<lparr>loaded := (loaded s')(path \<mapsto> ns)\<rparr>))))"

definition load_roadmap_in ::
  "(string \<Rightarrow> js_error + (string \<times> 'v) list)
     \<Rightarrow> ('z RouteParams_scheme, 'j, 'y) LoadEvent_scheme \<Rightarrow> 'v realm
     \<Rightarrow> (js_error + addr js obj) \<times> 'v realm" where
  "load_roadmap_in sources ev s =
     (case import_in sources (module_path (params ev)) s of
        (Inl e, s') \<Rightarrow> (Inl (Error ''You missed it''), s')
      | (Inr roadmapFile, s') \<Rightarrow>
          (Inr [(''roadmap'', read_property roadmapFile ''overview'')], s'))"


section \<open>The static content record: \<open>beginner-dapp-roadmap\<close>\<close>

text \<open>
  Modelled from the spec: the declarations of \<open>ContentTypeEnum\<close>, \<open>ExpertiseEnum\<close>,
  \<open>SubjectsEnum\<close> and of the \<open>RoadmapOverview\<close> interface, which the content module
  imports from \<open>$lib/types/content\<close>. The spec gives the record its fields (title,
  content type, slug, excerpt, metadata, contents, chapters) and calls the tags members
  of closed enumerations; the enumerations below list the members the content module
  names, and the records the fields its literal fills in.
\<close>

datatype ContentTypeEnum = Roadmap | Course

datatype ExpertiseEnum = beginner

datatype SubjectsEnum = Cadence

record ChapterExcerpt =
  excerpt :: string

record RoadmapMetadata =
  expertise :: ExpertiseEnum
  duration :: string
  prerequisites :: "string list"
  subjects :: "SubjectsEnum list"

record CourseSummary =
  title :: string
  excerpt :: string
  contentType :: ContentTypeEnum
  duration :: string
  subjects :: "SubjectsEnum list"
  url :: string

record RoadmapOverview =
  title :: string
  contentType :: ContentTypeEnum
  slug :: string
  excerpt :: string
  metadata :: RoadmapMetadata
  contents :: "CourseSummary list"
  chapters :: "ChapterExcerpt list"

text \<open>
  The exported \<open>overview\<close>. \<open>generateSlug\<close> is a utility imported from
  \<open>$lib/utilities/dataTransformation\<close>, and \<open>import.meta.url\<close> is the address of the
  module: both are parameters.
\<close>

definition overview :: "(string \<Rightarrow> string) \<Rightarrow> string \<Rightarrow> RoadmapOverview" where
  "overview generateSlug import_meta_url =
    \<lparr>title = ''Beginner Dapp Roadmap'',
     contentType = Roadmap,
     slug = generateSlug import_meta_url,
     excerpt = ''Lorem ipsum dolor sit amet.'',
     metadata = \<lparr>
       expertise = beginner,
       RoadmapMetadata.duration = ''3 chapters'',
       prerequisites = [''javascript''],
       RoadmapMetadata.subjects = [Cadence]\<rparr>,
     contents = [
       \<lparr>CourseSummary.title = ''Beginner Cadence Course'',
        CourseSummary.excerpt = ''Lorem ipsum'',
        CourseSummary.contentType = Course,
        duration = ''4 chapters'',
        subjects = [Cadence],
        url = ''catalog/courses/beginner-cadence''\<rparr>,
       \<lparr>CourseSummary.title = ''Basic Dapp'',
        CourseSummary.excerpt = ''Lorem ipsum'',
        CourseSummary.contentType = Course,
        duration = ''4 chapters'',
        subjects = [Cadence],
        url = ''catalog/courses/basic-dapp''\<rparr>],
     chapters = [
       \<lparr>ChapterExcerpt.excerpt = ''This is the first chapter''\<rparr>,
       \<lparr>ChapterExcerpt.excerpt = ''This is the second chapter''\<rparr>,
       \<lparr>ChapterExcerpt.excerpt = ''This is the third chapter''\<rparr>]\<rparr>"

text \<open>The namespace of the content module: its one export.\<close>

definition overview_module :: "(string \<Rightarrow> string) \<Rightarrow> string \<Rightarrow> RoadmapOverview module_ns" where
  "overview_module generateSlug import_meta_url =
     [''overview'' \<mapsto> overview generateSlug import_meta_url]"

section \<open>Concrete environments\<close>

text \<open>
  A dynamic import over a fixed set of module files. For a path outside the set the
  import throws; the message carries the path, as the bundler's runtime reports it.
\<close>

definition import_from :: "(string \<rightharpoonup> 'v module_ns) \<Rightarrow> string \<Rightarrow> js_error + 'v module_ns" where
  "import_from files path =
     (case files path of
        None \<Rightarrow> Inl (Error (''Unknown variable dynamic import: '' @ path))
      | Some ns \<Rightarrow> Inr ns)"

text \<open>A dynamic import that throws the given error for every path.\<close>

definition import_failing :: "js_error \<Rightarrow> string \<Rightarrow> js_error + 'v module_ns" where
  "import_failing e path = Inl e"

text \<open>
  The content set that holds the \<open>beginner-dapp-roadmap\<close> module for \<open>en\<close> and nothing
  else, with a slug function and module address fixed for the purpose.
\<close>

definition sample_url :: string where
  "sample_url = ''file:///src/lib/content/roadmaps/beginner-dapp-roadmap/en/overview.ts''"

definition sample_slug :: "string \<Rightarrow> string" where
  "sample_slug u = ''beginner-dapp-roadmap''"

definition sample_files :: "string \<rightharpoonup> RoadmapOverview module_ns" where
  "sample_files =
     [''../../../../../lib/content/roadmaps/beginner-dapp-roadmap/en/overview.ts''
        \<mapsto> overview_module sample_slug sample_url]"

text \<open>
  Two behaviours of \<open>fetch\<close>: one answers every request with a response of the given
  status whose \<open>json()\<close> has the given outcome, the other rejects every request.
\<close>

definition respond ::
  "nat \<Rightarrow> js_error + 'j \<Rightarrow> string \<Rightarrow> RequestInit option \<Rightarrow> js_error + 'j Response" where
  "respond st decoded input init = Inr \<lparr>status = st, json = decoded\<rparr>"

definition reject ::
  "js_error \<Rightarrow> string \<Rightarrow> RequestInit option \<Rightarrow> js_error + 'j Response" where
  "reject e input init = Inl e"

text \<open>A dynamic import that resolves every path to the given namespace.\<close>

definition import_resolving :: "'v module_ns \<Rightarrow> string \<Rightarrow> js_error + 'v module_ns" where
  "import_resolving ns path = Inr ns"

text \<open>
  A content set whose one module exports its record as \<open>default\<close> and has no export
  named \<open>overview\<close>.
\<close>

definition draft_files :: "string \<rightharpoonup> RoadmapOverview module_ns" where
  "draft_files =
     [''../../../../../lib/content/roadmaps/draft-roadmap/en/overview.ts''
        \<mapsto> [''default'' \<mapsto> overview sample_slug sample_url]]"







section \<open>Properties of the content resolver\<close>

text \<open>
  C1. Whenever the dynamic import of the overview module for a (language, name) pair
  succeeds and the module exports an \<open>overview\<close> record, \<open>load\<close> returns an object whose
  \<open>roadmap\<close> field is that record. In particular, for (\<open>en\<close>, \<open>beginner-dapp-roadmap\<close>)
  resolving to the content module above, it returns the defined record, whose title is
  \<open>Beginner Dapp Roadmap\<close>.
\<close>

theorem load_roadmap_returns_defined_record:
  "(import_module (module_path (params ev)) = Inr ns \<and> ns ''overview'' = Some r
      \<longrightarrow> snd (load_roadmap import_module ev) = Inr [(''roadmap'', Val r)])
   \<and> (lang (params ev) = ''en'' \<and> name (params ev) = ''beginner-dapp-roadmap''
        \<and> import_module ''../../../../../lib/content/roadmaps/beginner-dapp-roadmap/en/overview.ts''
            = Inr (overview_module generateSlug import_meta_url)
      \<longrightarrow> snd (load_roadmap import_module ev)
            = Inr [(''roadmap'', Val (overview generateSlug import_meta_url))]
          \<and> RoadmapOverview.title (overview generateSlug import_meta_url) = ''Beginner Dapp Roadmap'')"
  by (simp add: load_roadmap_def module_path_def read_property_def overview_module_def overview_def)

theorem load_roadmap_returns_defined_record_witness:
  "import_from sample_files (module_path \<lparr>lang = ''en'', name = ''beginner-dapp-roadmap''\<rparr>)
     = Inr (overview_module sample_slug sample_url)
   \<and> overview_module sample_slug sample_url ''overview'' = Some (overview sample_slug sample_url)
   \<and> snd (load_roadmap (import_from sample_files)
        \<lparr>params = \<lparr>lang = ''en'', name = ''beginner-dapp-roadmap''\<rparr>,
         fetch = reject (TypeError ''fetch failed'') :: string \<Rightarrow> RequestInit option \<Rightarrow> js_error + unit Response\<rparr>)
     = Inr [(''roadmap'', Val (overview sample_slug sample_url))]
   \<and> RoadmapOverview.title (overview sample_slug sample_url) = ''Beginner Dapp Roadmap''"
proof -
  let ?ps = "\<lparr>lang = ''en'', name = ''beginner-dapp-roadmap''\<rparr>"
  let ?ev = "\<lparr>params = ?ps,
    fetch = reject (TypeError ''fetch failed'') :: string \<Rightarrow> RequestInit option \<Rightarrow> js_error + unit Response\<rparr>"
  have found: "import_from sample_files (module_path ?ps) = Inr (overview_module sample_slug sample_url)"
    by (simp add: import_from_def sample_files_def module_path_def)
  have exported: "overview_module sample_slug sample_url ''overview'' = Some (overview sample_slug sample_url)"
    by (simp add: overview_module_def)
  have path: "module_path ?ps = ''../../../../../lib/content/roadmaps/beginner-dapp-roadmap/en/overview.ts''"
    by (simp add: module_path_def)
  from load_roadmap_returns_defined_record
         [of "import_from sample_files" ?ev "overview_module sample_slug sample_url"
             "overview sample_slug sample_url" sample_slug sample_url]
       found exported path
  show ?thesis by simp
qed

text \<open>
  C2, as stated: for every (language, name) pair with no corresponding record, \<open>load\<close>
  throws. A module that loads but has no \<open>overview\<close> export is such a pair, and the
  import does not fail for it: the property read gives \<open>undefined\<close> and \<open>load\<close> returns
  it under \<open>roadmap\<close>.
\<close>

theorem load_roadmap_missing_export_counterexample:
  "\<not> has_record (import_from draft_files) \<lparr>lang = ''en'', name = ''draft-roadmap''\<rparr>
   \<and> snd (load_roadmap (import_from draft_files)
        \<lparr>params = \<lparr>lang = ''en'', name = ''draft-roadmap''\<rparr>,
         fetch = reject (TypeError ''fetch failed'') :: string \<Rightarrow> RequestInit option \<Rightarrow> js_error + unit Response\<rparr>)
     = Inr [(''roadmap'', Undefined)]"
  by (simp add: has_record_def load_roadmap_def Let_def import_from_def draft_files_def
      module_path_def read_property_def)

text \<open>
  C2, amended. Whenever the dynamic import throws, for whatever reason and in particular
  because the content set holds no module for the (language, name) pair, \<open>load\<close> throws
  an error whose message is exactly \<open>You missed it\<close>. What the import threw is dropped:
  two imports that fail differently give the same outcome, and every error \<open>load\<close>
  throws carries that one message. A module that loads without an \<open>overview\<close> export
  is not a failure: \<open>load\<close> returns \<open>{ roadmap: undefined }\<close>.
\<close>

theorem load_roadmap_failure_is_uniform:
  "(import_module (module_path (params ev)) = Inl e
      \<longrightarrow> snd (load_roadmap import_module ev) = Inl (Error ''You missed it''))
   \<and> (files (module_path (params ev)) = None
      \<longrightarrow> snd (load_roadmap (import_from files) ev) = Inl (Error ''You missed it''))
   \<and> (import_module (module_path (params ev)) = Inl e
        \<and> import_module' (module_path (params ev)) = Inl e'
      \<longrightarrow> load_roadmap import_module ev = load_roadmap import_module' ev)
   \<and> (snd (load_roadmap import_module ev) = Inl x \<longrightarrow> message x = ''You missed it'')
   \<and> (import_module (module_path (params ev)) = Inr ns \<and> ns ''overview'' = None
      \<longrightarrow> snd (load_roadmap import_module ev) = Inr [(''roadmap'', Undefined)])"
  by (auto simp: load_roadmap_def Let_def import_from_def read_property_def split: sum.splits)

theorem load_roadmap_failure_is_uniform_witness:
  "sample_files (module_path \<lparr>lang = ''en'', name = ''nonexistent-roadmap''\<rparr>) = None
   \<and> import_from sample_files (module_path \<lparr>lang = ''en'', name = ''nonexistent-roadmap''\<rparr>)
       = Inl (Error ''Unknown variable dynamic import: ../../../../../lib/content/roadmaps/nonexistent-roadmap/en/overview.ts'')
   \<and> snd (load_roadmap (import_from sample_files)
        \<lparr>params = \<lparr>lang = ''en'', name = ''nonexistent-roadmap''\<rparr>,
         fetch = reject (TypeError ''fetch failed'') :: string \<Rightarrow> RequestInit option \<Rightarrow> js_error + unit Response\<rparr>)
     = Inl (Error ''You missed it'')
   \<and> load_roadmap (import_from sample_files)
        \<lparr>params = \<lparr>lang = ''en'', name = ''nonexistent-roadmap''\<rparr>,
         fetch = reject (TypeError ''fetch failed'') :: string \<Rightarrow> RequestInit option \<Rightarrow> js_error + unit Response\<rparr>
     = load_roadmap (import_failing (SyntaxError ''Unexpected token''))
        \<lparr>params = \<lparr>lang = ''en'', name = ''nonexistent-roadmap''\<rparr>,
         fetch = reject (TypeError ''fetch failed'') :: string \<Rightarrow> RequestInit option \<Rightarrow> js_error + unit Response\<rparr>
   \<and> message (Error ''You missed it'') = ''You missed it''
   \<and> snd (load_roadmap (import_from draft_files)
        \<lparr>params = \<lparr>lang = ''en'', name = ''draft-roadmap''\<rparr>,
         fetch = reject (TypeError ''fetch failed'') :: string \<Rightarrow> RequestInit option \<Rightarrow> js_error + unit Response\<rparr>)
     = Inr [(''roadmap'', Undefined)]"
proof -
  let ?ps = "\<lparr>lang = ''en'', name = ''nonexistent-roadmap''\<rparr>"
  let ?ev = "\<lparr>params = ?ps,
    fetch = reject (TypeError ''fetch failed'') :: string \<Rightarrow> RequestInit option \<Rightarrow> js_error + unit Response\<rparr>"
  let ?draft = "\<lparr>params = \<lparr>lang = ''en'', name = ''draft-roadmap''\<rparr>,
    fetch = reject (TypeError ''fetch failed'') :: string \<Rightarrow> RequestInit option \<Rightarrow> js_error + unit Response\<rparr>"
  let ?detail = "Error ''Unknown variable dynamic import: ../../../../../lib/content/roadmaps/nonexistent-roadmap/en/overview.ts''"
  have missing: "sample_files (module_path ?ps) = None"
    by (simp add: sample_files_def module_path_def)
  have thrown: "import_from sample_files (module_path ?ps) = Inl ?detail"
    by (simp add: import_from_def sample_files_def module_path_def)
  have other: "import_failing (SyntaxError ''Unexpected token'') (module_path ?ps)
      = (Inl (SyntaxError ''Unexpected token'') :: js_error + RoadmapOverview module_ns)"
    by (simp add: import_failing_def)
  have loads: "import_from draft_files (module_path (params ?draft))
      = Inr [''default'' \<mapsto> overview sample_slug sample_url]
    \<and> [''default'' \<mapsto> overview sample_slug sample_url] ''overview'' = None"
    by (simp add: import_from_def draft_files_def module_path_def)
  have by_throw: "snd (load_roadmap (import_from sample_files) ?ev) = Inl (Error ''You missed it'')"
    by (rule load_roadmap_failure_is_uniform [THEN conjunct1, THEN mp]) (simp add: thrown)
  have by_absence: "snd (load_roadmap (import_from sample_files) ?ev) = Inl (Error ''You missed it'')"
    by (rule load_roadmap_failure_is_uniform [THEN conjunct2, THEN conjunct1, THEN mp])
       (simp add: missing)
  have same: "load_roadmap (import_from sample_files) ?ev
      = load_roadmap (import_failing (SyntaxError ''Unexpected token'')) ?ev"
    by (rule load_roadmap_failure_is_uniform
          [where e = ?detail and e' = "SyntaxError ''Unexpected token''",
           THEN conjunct2, THEN conjunct2, THEN conjunct1, THEN mp])
       (simp add: thrown other)
  have msg: "message (Error ''You missed it'') = ''You missed it''"
    by (rule load_roadmap_failure_is_uniform
          [THEN conjunct2, THEN conjunct2, THEN conjunct2, THEN conjunct1, THEN mp, OF by_absence])
  have no_export: "snd (load_roadmap (import_from draft_files) ?draft) = Inr [(''roadmap'', Undefined)]"
    by (rule load_roadmap_failure_is_uniform
          [THEN conjunct2, THEN conjunct2, THEN conjunct2, THEN conjunct2, THEN mp])
       (rule loads)
  show ?thesis by (intro conjI) (rule missing thrown by_throw same msg no_export)+
qed

text \<open>
  C5. For all parameter strings, \<open>load\<close> interpolates the two route parameters, as they
  are, into a module path of the form \<open>.../roadmaps/<name>/<lang>/overview.ts\<close> and
  imports that path, and nothing else. Its result is what that import gives: the
  \<open>overview\<close> property of the namespace the import resolves to, or the fixed error when
  the import throws. The parameters count only through the answer of the import: two
  invocations, of whatever events, whose imports answer alike return alike, so no table
  keyed by the parameters is consulted.
\<close>

theorem load_roadmap_imports_interpolated_path:
  "fst (load_roadmap import_module ev) =
     [DynamicImport (''../../../../../lib/content/roadmaps/'' @ name (params ev) @ ''/''
                       @ lang (params ev) @ ''/overview.ts'')]
   \<and> (import_module (''../../../../../lib/content/roadmaps/'' @ name (params ev) @ ''/''
                       @ lang (params ev) @ ''/overview.ts'') = Inr ns
      \<longrightarrow> snd (load_roadmap import_module ev) = Inr [(''roadmap'', read_property ns ''overview'')])
   \<and> (import_module (''../../../../../lib/content/roadmaps/'' @ name (params ev) @ ''/''
                       @ lang (params ev) @ ''/overview.ts'') = Inl e
      \<longrightarrow> snd (load_roadmap import_module ev) = Inl (Error ''You missed it''))
   \<and> (import_module (module_path (params ev)) = import_module' (module_path (params ev'))
      \<longrightarrow> snd (load_roadmap import_module ev) = snd (load_roadmap import_module' ev'))"
  by (simp add: load_roadmap_def Let_def module_path_def)

theorem load_roadmap_imports_interpolated_path_witness:
  "fst (load_roadmap (import_from sample_files)
        \<lparr>params = \<lparr>lang = ''en'', name = ''../courses''\<rparr>,
         fetch = reject (TypeError ''fetch failed'') :: string \<Rightarrow> RequestInit option \<Rightarrow> js_error + unit Response\<rparr>)
     = [DynamicImport ''../../../../../lib/content/roadmaps/../courses/en/overview.ts'']
   \<and> snd (load_roadmap (import_from sample_files)
        \<lparr>params = \<lparr>lang = ''en'', name = ''../courses''\<rparr>,
         fetch = reject (TypeError ''fetch failed'') :: string \<Rightarrow> RequestInit option \<Rightarrow> js_error + unit Response\<rparr>)
     = Inl (Error ''You missed it'')
   \<and> snd (load_roadmap (import_from sample_files)
        \<lparr>params = \<lparr>lang = ''en'', name = ''beginner-dapp-roadmap''\<rparr>,
         fetch = reject (TypeError ''fetch failed'') :: string \<Rightarrow> RequestInit option \<Rightarrow> js_error + unit Response\<rparr>)
     = Inr [(''roadmap'', read_property (overview_module sample_slug sample_url) ''overview'')]
   \<and> snd (load_roadmap (import_from sample_files)
        \<lparr>params = \<lparr>lang = ''en'', name = ''beginner-dapp-roadmap''\<rparr>,
         fetch = reject (TypeError ''fetch failed'') :: string \<Rightarrow> RequestInit option \<Rightarrow> js_error + unit Response\<rparr>)
     = snd (load_roadmap (import_resolving (overview_module sample_slug sample_url))
        \<lparr>params = \<lparr>lang = ''fr'', name = ''another-roadmap''\<rparr>,
         fetch = respond 200 (Inr ()) :: string \<Rightarrow> RequestInit option \<Rightarrow> js_error + unit Response\<rparr>)"
proof -
  let ?bad = "\<lparr>params = \<lparr>lang = ''en'', name = ''../courses''\<rparr>,
    fetch = reject (TypeError ''fetch failed'') :: string \<Rightarrow> RequestInit option \<Rightarrow> js_error + unit Response\<rparr>"
  let ?ev = "\<lparr>params = \<lparr>lang = ''en'', name = ''beginner-dapp-roadmap''\<rparr>,
    fetch = reject (TypeError ''fetch failed'') :: string \<Rightarrow> RequestInit option \<Rightarrow> js_error + unit Response\<rparr>"
  let ?ev' = "\<lparr>params = \<lparr>lang = ''fr'', name = ''another-roadmap''\<rparr>,
    fetch = respond 200 (Inr ()) :: string \<Rightarrow> RequestInit option \<Rightarrow> js_error + unit Response\<rparr>"
  let ?m = "overview_module sample_slug sample_url"
  have sent: "fst (load_roadmap (import_from sample_files) ?bad)
      = [DynamicImport ''../../../../../lib/content/roadmaps/../courses/en/overview.ts'']"
    using load_roadmap_imports_interpolated_path [THEN conjunct1, of "import_from sample_files" ?bad]
    by simp
  have fails: "snd (load_roadmap (import_from sample_files) ?bad) = Inl (Error ''You missed it'')"
    by (rule load_roadmap_imports_interpolated_path
          [THEN conjunct2, THEN conjunct2, THEN conjunct1, THEN mp])
       (simp add: import_from_def sample_files_def)
  have finds: "snd (load_roadmap (import_from sample_files) ?ev)
      = Inr [(''roadmap'', read_property ?m ''overview'')]"
    by (rule load_roadmap_imports_interpolated_path [THEN conjunct2, THEN conjunct1, THEN mp])
       (simp add: import_from_def sample_files_def)
  have agree: "import_from sample_files (module_path (params ?ev))
      = import_resolving ?m (module_path (params ?ev'))"
    by (simp add: import_from_def sample_files_def import_resolving_def module_path_def)
  have same: "snd (load_roadmap (import_from sample_files) ?ev)
      = snd (load_roadmap (import_resolving ?m) ?ev')"
    by (rule load_roadmap_imports_interpolated_path
          [THEN conjunct2, THEN conjunct2, THEN conjunct2, THEN mp])
       (rule agree)
  show ?thesis by (intro conjI) (rule sent fails finds same)+
qed

text \<open>
  C8. On success the object \<open>load\<close> returns has exactly one field, \<open>roadmap\<close>.
\<close>

theorem load_roadmap_result_has_one_field:
  "snd (load_roadmap import_module ev) = Inr ob \<Longrightarrow> keys ob = [''roadmap'']"
  by (auto simp: load_roadmap_def Let_def keys_def split: sum.splits)

theorem load_roadmap_result_has_one_field_witness:
  "snd (load_roadmap (import_from sample_files)
        \<lparr>params = \<lparr>lang = ''en'', name = ''beginner-dapp-roadmap''\<rparr>,
         fetch = reject (TypeError ''fetch failed'') :: string \<Rightarrow> RequestInit option \<Rightarrow> js_error + unit Response\<rparr>)
     = Inr [(''roadmap'', Val (overview sample_slug sample_url))]
   \<and> keys [(''roadmap'', Val (overview sample_slug sample_url))] = [''roadmap'']"
proof -
  let ?ev = "\<lparr>params = \<lparr>lang = ''en'', name = ''beginner-dapp-roadmap''\<rparr>,
    fetch = reject (TypeError ''fetch failed'') :: string \<Rightarrow> RequestInit option \<Rightarrow> js_error + unit Response\<rparr>"
  have run: "snd (load_roadmap (import_from sample_files) ?ev)
      = Inr [(''roadmap'', Val (overview sample_slug sample_url))]"
    by (simp add: load_roadmap_def Let_def import_from_def sample_files_def module_path_def
        read_property_def overview_module_def)
  from load_roadmap_result_has_one_field [OF run] run show ?thesis by simp
qed

section \<open>Properties of the API-backed loader\<close>

text \<open>
  C3. For every response of the endpoint whose JSON body decodes to \<open>J\<close>, the loader
  returns exactly \<open>{ content: J }\<close>: the decoded body, unchanged and unexamined,
  whatever its shape.
\<close>

theorem load_content_passes_body_through:
  "fetch ev ''/api/content/cadenceByExample'' None = Inr response \<Longrightarrow> json response = Inr J
     \<Longrightarrow> snd (load_content ev) = Inr [(''content'', J)]"
  by (simp add: load_content_def)

theorem load_content_passes_body_through_witness:
  "respond 200 (Inr (JObject [(''foo'', JString ''bar'')])) ''/api/content/cadenceByExample'' None
     = Inr \<lparr>status = 200, json = Inr (JObject [(''foo'', JString ''bar'')])\<rparr>
   \<and> snd (load_content \<lparr>params = (), fetch = respond 200 (Inr (JObject [(''foo'', JString ''bar'')]))\<rparr>)
     = Inr [(''content'', JObject [(''foo'', JString ''bar'')])]"
proof -
  let ?J = "JObject [(''foo'', JString ''bar'')]"
  let ?ev = "\<lparr>params = (), fetch = respond 200 (Inr ?J)\<rparr>"
  have answered: "fetch ?ev ''/api/content/cadenceByExample'' None = Inr \<lparr>status = 200, json = Inr ?J\<rparr>"
    by (simp add: respond_def)
  have decoded: "json \<lparr>status = 200, json = Inr ?J\<rparr> = Inr ?J"
    by simp
  from load_content_passes_body_through [OF answered decoded] answered
  show ?thesis by simp
qed

text \<open>
  C4, as stated: every non-2xx or malformed-JSON response makes the loader fail. The
  loader never reads the status. A 404 whose body is JSON is returned as content.
\<close>

theorem load_content_non_2xx_counterexample:
  "\<not> ok \<lparr>status = 404, json = Inr (JObject [(''message'', JString ''Not Found'')])\<rparr>
   \<and> respond 404 (Inr (JObject [(''message'', JString ''Not Found'')])) ''/api/content/cadenceByExample'' None
       = Inr \<lparr>status = 404, json = Inr (JObject [(''message'', JString ''Not Found'')])\<rparr>
   \<and> snd (load_content
          \<lparr>params = (), fetch = respond 404 (Inr (JObject [(''message'', JString ''Not Found'')]))\<rparr>)
       = Inr [(''content'', JObject [(''message'', JString ''Not Found'')])]"
  by (simp add: ok_def respond_def load_content_def)

text \<open>
  C4, amended. A rejected fetch and a body that fails to decode propagate from the
  loader as they were thrown, nothing being caught locally. A response whose body
  decodes is returned as \<open>{ content: body }\<close> whatever its status.
\<close>

theorem load_content_propagates_failures:
  "(fetch ev ''/api/content/cadenceByExample'' None = Inl e \<longrightarrow> snd (load_content ev) = Inl e)
   \<and> (fetch ev ''/api/content/cadenceByExample'' None = Inr response \<and> json response = Inl e
        \<longrightarrow> snd (load_content ev) = Inl e)
   \<and> (fetch ev ''/api/content/cadenceByExample'' None = Inr response \<and> json response = Inr J
        \<longrightarrow> snd (load_content ev) = Inr [(''content'', J)])"
  by (simp add: load_content_def)

theorem load_content_propagates_failures_witness:
  "snd (load_content \<lparr>params = (), fetch = reject (TypeError ''fetch failed'')
          :: string \<Rightarrow> RequestInit option \<Rightarrow> js_error + unit json_value Response\<rparr>)
     = Inl (TypeError ''fetch failed'')
   \<and> snd (load_content \<lparr>params = (), fetch = respond 502 (Inl (SyntaxError ''Unexpected token < in JSON at position 0''))
          :: string \<Rightarrow> RequestInit option \<Rightarrow> js_error + unit json_value Response\<rparr>)
     = Inl (SyntaxError ''Unexpected token < in JSON at position 0'')
   \<and> snd (load_content \<lparr>params = (), fetch = respond 404 (Inr (JObject [(''message'', JString ''Not Found'')]))
          :: string \<Rightarrow> RequestInit option \<Rightarrow> js_error + unit json_value Response\<rparr>)
     = Inr [(''content'', JObject [(''message'', JString ''Not Found'')])]"
proof -
  let ?e1 = "TypeError ''fetch failed''"
  let ?e2 = "SyntaxError ''Unexpected token < in JSON at position 0''"
  let ?J = "JObject [(''message'', JString ''Not Found'')] :: unit json_value"
  let ?ev1 = "\<lparr>params = (), fetch = reject ?e1
          :: string \<Rightarrow> RequestInit option \<Rightarrow> js_error + unit json_value Response\<rparr>"
  let ?ev2 = "\<lparr>params = (), fetch = respond 502 (Inl ?e2)
          :: string \<Rightarrow> RequestInit option \<Rightarrow> js_error + unit json_value Response\<rparr>"
  let ?ev3 = "\<lparr>params = (), fetch = respond 404 (Inr ?J)\<rparr>"
  have a: "snd (load_content ?ev1) = Inl ?e1"
    by (rule load_content_propagates_failures [THEN conjunct1, THEN mp]) (simp add: reject_def)
  have b: "snd (load_content ?ev2) = Inl ?e2"
    by (rule load_content_propagates_failures
          [where response = "\<lparr>status = 502, json = Inl ?e2\<rparr>", THEN conjunct2, THEN conjunct1, THEN mp])
       (simp add: respond_def)
  have c: "snd (load_content ?ev3) = Inr [(''content'', ?J)]"
    by (rule load_content_propagates_failures
          [where response = "\<lparr>status = 404, json = Inr ?J\<rparr>", THEN conjunct2, THEN conjunct2, THEN mp])
       (simp add: respond_def)
  from a b c show ?thesis by blast
qed

text \<open>
  C6. Every invocation sends exactly one request: a GET to the fixed path
  \<open>/api/content/cadenceByExample\<close> on the page's own origin, with no query, no header
  and no body of the caller's, whatever the event holds.
\<close>

theorem load_content_sends_one_fixed_get:
  "requests (fst (load_content ev)) = [(''/api/content/cadenceByExample'', None)]
   \<and> request_method None = ''GET''
   \<and> request_headers None = []
   \<and> request_body None = None
   \<and> CHR ''?'' \<notin> set ''/api/content/cadenceByExample''
   \<and> same_origin_path ''/api/content/cadenceByExample''"
  by (simp add: load_content_def request_method_def request_headers_def request_body_def
      same_origin_path_def split: sum.splits)

text \<open>
  C9. The loader's outcome does not depend on the route parameters or on anything else
  of the event: two invocations whose responses decode alike have the same outcome,
  whatever their parameters and whatever the responses' status.
\<close>

theorem load_content_ignores_route:
  "fetch ev ''/api/content/cadenceByExample'' None = Inr response
   \<Longrightarrow> fetch ev' ''/api/content/cadenceByExample'' None = Inr response'
   \<Longrightarrow> json response = json response'
   \<Longrightarrow> load_content ev = load_content ev'"
  by (simp add: load_content_def)

theorem load_content_ignores_route_witness:
  "json \<lparr>status = 200, json = Inr (JObject [(''foo'', JString ''bar'')])\<rparr>
     = json \<lparr>status = 203, json = Inr (JObject [(''foo'', JString ''bar'')])\<rparr>
   \<and> load_content \<lparr>params = \<lparr>lang = ''en'', name = ''beginner-dapp-roadmap''\<rparr>,
                    fetch = respond 200 (Inr (JObject [(''foo'', JString ''bar'')]))\<rparr>
     = load_content \<lparr>params = [''fr'', ''cadence-by-example''],
                    fetch = respond 203 (Inr (JObject [(''foo'', JString ''bar'')]))\<rparr>"
proof -
  let ?J = "JObject [(''foo'', JString ''bar'')]"
  let ?ev = "\<lparr>params = \<lparr>lang = ''en'', name = ''beginner-dapp-roadmap''\<rparr>, fetch = respond 200 (Inr ?J)\<rparr>"
  let ?ev' = "\<lparr>params = [''fr'', ''cadence-by-example''], fetch = respond 203 (Inr ?J)\<rparr>"
  have r: "fetch ?ev ''/api/content/cadenceByExample'' None = Inr \<lparr>status = 200, json = Inr ?J\<rparr>"
    by (simp add: respond_def)
  have r': "fetch ?ev' ''/api/content/cadenceByExample'' None = Inr \<lparr>status = 203, json = Inr ?J\<rparr>"
    by (simp add: respond_def)
  have same: "json \<lparr>status = 200, json = Inr ?J\<rparr> = json \<lparr>status = 203, json = Inr ?J\<rparr>"
    by simp
  from load_content_ignores_route [OF r r' same] same show ?thesis by blast
qed

section \<open>Properties of both loaders\<close>







text \<open>
  The result of \<open>load\<close> run in a state is the result of \<open>load\<close> over what the import
  answers in that state: the two definitions are the same function of the import.
\<close>

lemma load_roadmap_in_result:
  "fst (load_roadmap_in sources ev s)
     = snd (load_roadmap (\<lambda>path. fst (import_in sources path s)) ev)"
  by (cases "import_in sources (module_path (params ev)) s")
     (simp add: load_roadmap_in_def load_roadmap_def Let_def split: sum.splits)




section \<open>Properties of the static record\<close>

text \<open>
  C10. The \<open>beginner-dapp-roadmap\<close> overview is consistent with its shape: its content
  type is \<open>Roadmap\<close>, it has exactly 3 chapter excerpts and its metadata gives the
  duration as \<open>3 chapters\<close>, and every entry of its contents is tagged \<open>Course\<close> and
  carries a non-empty url.
\<close>

theorem overview_is_consistent:
  "RoadmapOverview.contentType (overview generateSlug import_meta_url) = Roadmap
   \<and> length (chapters (overview generateSlug import_meta_url)) = 3
   \<and> RoadmapMetadata.duration (metadata (overview generateSlug import_meta_url)) = ''3 chapters''
   \<and> list_all (\<lambda>c. CourseSummary.contentType c = Course \<and> url c \<noteq> '''')
        (contents (overview generateSlug import_meta_url))"
  by (simp add: overview_def)

end
